theory Spec2Isabelle
  imports Main "HOL-Library.Word"
begin

unbundle bit_operations_syntax

section \<open>UTXO input: data model\<close>

text \<open>
  A shallow embedding of \<^verbatim>\<open>utxo_input.go\<close>. Go's \<^verbatim>\<open>byte\<close> is an 8-bit word and
  \<^verbatim>\<open>uint16\<close> a 16-bit word. Go's fixed-size arrays \<^verbatim>\<open>[32]byte\<close> and \<^verbatim>\<open>[34]byte\<close> are
  byte lists; the length that the Go type fixes for the transaction ID is the
  well-formedness predicate \<open>UTXOInput_wf\<close>.
\<close>

type_synonym byte = "8 word"
type_synonym uint16 = "16 word"

text \<open>
  Modelled from the spec: \<^verbatim>\<open>SmallTypeDenotationByteSize\<close> is declared outside
  \<^verbatim>\<open>utxo_input.go\<close>; the wire layout has a 1-byte type tag.
\<close>

definition SmallTypeDenotationByteSize :: nat where
  "SmallTypeDenotationByteSize = 1"

text \<open>
  Modelled from the spec: \<^verbatim>\<open>TransactionIDLength\<close> is declared outside
  \<^verbatim>\<open>utxo_input.go\<close>; the producer identifier has 32 bytes.
\<close>

definition TransactionIDLength :: nat where
  "TransactionIDLength = 32"

text \<open>
  Modelled from the spec: \<^verbatim>\<open>UInt16ByteSize\<close> is declared outside \<^verbatim>\<open>utxo_input.go\<close>;
  the slot index takes 2 bytes.
\<close>

definition UInt16ByteSize :: nat where
  "UInt16ByteSize = 2"

definition RefUTXOIndexMin :: nat where
  "RefUTXOIndexMin = 0"

definition RefUTXOIndexMax :: nat where
  "RefUTXOIndexMax = 126"

definition UTXOInputSize :: nat where
  "UTXOInputSize = SmallTypeDenotationByteSize + TransactionIDLength + UInt16ByteSize"

type_synonym UTXOInputID = "byte list"

record UTXOInput =
  TransactionID :: "byte list"
  TransactionOutputIndex :: uint16

definition UTXOInput_wf :: "UTXOInput \<Rightarrow> bool" where
  "UTXOInput_wf u = (length (TransactionID u) = TransactionIDLength)"

subsection \<open>Errors\<close>

text \<open>
  Modelled from the spec: the error values are declared outside \<^verbatim>\<open>utxo_input.go\<close>. The
  first five kinds are the ones the spec names. \<open>NotEnoughData\<close> is the failure of a read
  primitive that finds fewer bytes left than it needs, for which the spec has no name.
\<close>

datatype err_kind =
    TruncatedInput
  | TypeMismatch
  | SlotIndexOutOfRange
  | MalformedJSON
  | InvalidHexEncoding
  | NotEnoughData

text \<open>
  \<^verbatim>\<open>fmt.Errorf("...: %w", err)\<close> wraps an error in a message. \<open>kind_of\<close> unwraps it, as
  \<^verbatim>\<open>errors.Is\<close> does, and \<open>fails_with r k\<close> says that the returned error \<open>r\<close> is an error
  of kind \<open>k\<close>.
\<close>

datatype error = Err err_kind | Wrapped string error

fun kind_of :: "error \<Rightarrow> err_kind" where
  "kind_of (Err k) = k"
| "kind_of (Wrapped msg e) = kind_of e"

definition fails_with :: "error option \<Rightarrow> err_kind \<Rightarrow> bool" where
  "fails_with r k = (case r of None \<Rightarrow> False | Some e \<Rightarrow> kind_of e = k)"

text \<open>
  Modelled from the spec: \<^verbatim>\<open>DeSerializationMode\<close> is declared outside
  \<^verbatim>\<open>utxo_input.go\<close>; the validation mode is either \<^verbatim>\<open>strict\<close> or \<^verbatim>\<open>none\<close>.
\<close>

datatype DeSerializationMode = DeSeriModeNoValidation | DeSeriModePerformValidation

text \<open>
  Modelled from the spec: \<^verbatim>\<open>HasMode\<close> is declared outside \<^verbatim>\<open>utxo_input.go\<close>; with two
  modes, a mode has the mode asked for if it is that mode.
\<close>

definition HasMode :: "DeSerializationMode \<Rightarrow> DeSerializationMode \<Rightarrow> bool" where
  "HasMode m flag = (m = flag)"

subsection \<open>Little-endian integers and the built-in copy\<close>

text \<open>
  \<^verbatim>\<open>binary.LittleEndian.PutUint16(b, v)\<close> stores \<^verbatim>\<open>byte(v)\<close> in \<^verbatim>\<open>b[0]\<close> and
  \<^verbatim>\<open>byte(v >> 8)\<close> in \<^verbatim>\<open>b[1]\<close>, and panics on a slice shorter than two bytes: the
  result is the slice after the call, or \<open>None\<close> for the panic. \<^verbatim>\<open>Uint16\<close> reads the two
  bytes back. Go's \<^verbatim>\<open>copy(dst, src)\<close> overwrites the first \<^verbatim>\<open>min(len(dst), len(src))\<close>
  elements of \<^verbatim>\<open>dst\<close>.
\<close>

definition PutUint16 :: "byte list \<Rightarrow> uint16 \<Rightarrow> byte list option" where
  "PutUint16 b v =
    (if length b < 2 then None else Some (b[0 := ucast v, 1 := ucast (drop_bit 8 v)]))"

definition Uint16 :: "byte list \<Rightarrow> uint16" where
  "Uint16 b = ucast (b ! 0) OR push_bit 8 (ucast (b ! 1))"

definition copy_bytes :: "byte list \<Rightarrow> byte list \<Rightarrow> byte list" where
  "copy_bytes dst src = take (length dst) src @ drop (length src) dst"

section \<open>The identifier\<close>

text \<open>
  \<^verbatim>\<open>ID\<close> starts from the zero array of 34 bytes, copies the transaction ID into its first
  32 bytes and puts the output index into the remaining two. The method has a pointer
  receiver: the model returns the receiver as it is after the call, and the identifier, or
  \<open>None\<close> if \<^verbatim>\<open>PutUint16\<close> panics.
\<close>

definition ID :: "UTXOInput \<Rightarrow> UTXOInput \<times> UTXOInputID option" where
  "ID u =
    (let id0 = replicate (TransactionIDLength + UInt16ByteSize) (0 :: byte);
         id1 = copy_bytes (take TransactionIDLength id0) (TransactionID u)
                 @ drop TransactionIDLength id0
     in case PutUint16 (drop TransactionIDLength id1) (TransactionOutputIndex u) of
          None \<Rightarrow> (u, None)
        | Some tail \<Rightarrow> (u, Some (take TransactionIDLength id1 @ tail)))"

text \<open>
  \<^verbatim>\<open>fmt.Sprintf("%x", bytes)\<close> and \<^verbatim>\<open>hex.EncodeToString\<close> print each byte as two
  digits of the table \<^verbatim>\<open>0123456789abcdef\<close>, high nibble first.
\<close>

definition hextable :: string where
  "hextable = ''0123456789abcdef''"

definition hex_byte :: "byte \<Rightarrow> string" where
  "hex_byte v = [hextable ! unat (drop_bit 4 v), hextable ! unat (v AND 15)]"

definition hex_EncodeToString :: "byte list \<Rightarrow> string" where
  "hex_EncodeToString bs = concat (map hex_byte bs)"

definition ToHex :: "UTXOInputID \<Rightarrow> string" where
  "ToHex utxoInputID = hex_EncodeToString utxoInputID"

section \<open>The deserializer\<close>

text \<open>
  The byte deserializer is declared outside \<^verbatim>\<open>utxo_input.go\<close>. The spec describes it as
  a primitive offering "read N raw bytes", "read little-endian integer" and an
  abort-on-error short-circuit.

  The Go code hands the primitives pointers into the receiver
  (\<^verbatim>\<open>&u.TransactionID\<close>, \<^verbatim>\<open>&u.TransactionOutputIndex\<close>), and the closure of the last
  \<^verbatim>\<open>AbortIf\<close> reads the receiver. The receiver therefore travels with the deserializer as
  the second component of the state; a pointer is the function that stores through it, and
  a closure is a function of the receiver.
\<close>

text \<open>
  Modelled from the spec: the type \<^verbatim>\<open>Deserializer\<close> is declared outside
  \<^verbatim>\<open>utxo_input.go\<close>; it holds the buffer, the count of bytes consumed and the error that
  stopped it, if any.
\<close>

record Deserializer =
  src :: "byte list"
  offset :: nat
  d_err :: "error option"

text \<open>
  Modelled from the spec: \<^verbatim>\<open>NewDeserializer\<close> is declared outside \<^verbatim>\<open>utxo_input.go\<close>;
  decoding starts at the first byte with no error.
\<close>

definition NewDeserializer :: "byte list \<Rightarrow> Deserializer" where
  "NewDeserializer data = \<lparr>src = data, offset = 0, d_err = None\<rparr>"

text \<open>
  Modelled from the spec: the deserializer's \<^verbatim>\<open>AbortIf\<close> is declared outside
  \<^verbatim>\<open>utxo_input.go\<close>; it is a step of the short-circuit pipeline, skipped after an error,
  that stops the pipeline with the error of its check.
\<close>

definition Deserializer_AbortIf ::
  "('a \<Rightarrow> error option) \<Rightarrow> Deserializer \<times> 'a \<Rightarrow> Deserializer \<times> 'a" where
  "Deserializer_AbortIf errProducer s =
    (case s of (d, u) \<Rightarrow>
      if d_err d \<noteq> None then (d, u)
      else (case errProducer u of
              None \<Rightarrow> (d, u)
            | Some e \<Rightarrow> (d\<lparr>d_err := Some e\<rparr>, u)))"

text \<open>
  Modelled from the spec: \<^verbatim>\<open>Skip\<close> is declared outside \<^verbatim>\<open>utxo_input.go\<close>; it consumes
  \<open>n\<close> bytes (step 3 of decoding) and fails when fewer are left.
\<close>

definition Skip ::
  "nat \<Rightarrow> (error \<Rightarrow> error) \<Rightarrow> Deserializer \<times> 'a \<Rightarrow> Deserializer \<times> 'a" where
  "Skip n errProducer s =
    (case s of (d, u) \<Rightarrow>
      if d_err d \<noteq> None then (d, u)
      else if length (drop (offset d) (src d)) < n
        then (d\<lparr>d_err := Some (errProducer (Err NotEnoughData))\<rparr>, u)
      else (d\<lparr>offset := offset d + n\<rparr>, u))"

text \<open>
  Modelled from the spec: \<^verbatim>\<open>ReadArrayOf32Bytes\<close> is declared outside
  \<^verbatim>\<open>utxo_input.go\<close>; it copies the next 32 bytes as they are into the array it is given
  (step 4 of decoding) and fails when fewer are left.
\<close>

definition ReadArrayOf32Bytes ::
  "(byte list \<Rightarrow> 'a \<Rightarrow> 'a) \<Rightarrow> (error \<Rightarrow> error) \<Rightarrow> Deserializer \<times> 'a \<Rightarrow> Deserializer \<times> 'a" where
  "ReadArrayOf32Bytes store errProducer s =
    (case s of (d, u) \<Rightarrow>
      if d_err d \<noteq> None then (d, u)
      else if length (drop (offset d) (src d)) < 32
        then (d\<lparr>d_err := Some (errProducer (Err NotEnoughData))\<rparr>, u)
      else (d\<lparr>offset := offset d + 32\<rparr>, store (take 32 (drop (offset d) (src d))) u))"

text \<open>
  Modelled from the spec: \<^verbatim>\<open>ReadNum\<close> is declared outside \<^verbatim>\<open>utxo_input.go\<close>; given a
  pointer to a \<^verbatim>\<open>uint16\<close> it reads the next 2 bytes as a little-endian unsigned integer
  (step 5 of decoding) and fails when fewer are left.
\<close>

definition ReadNum ::
  "(uint16 \<Rightarrow> 'a \<Rightarrow> 'a) \<Rightarrow> (error \<Rightarrow> error) \<Rightarrow> Deserializer \<times> 'a \<Rightarrow> Deserializer \<times> 'a" where
  "ReadNum store errProducer s =
    (case s of (d, u) \<Rightarrow>
      if d_err d \<noteq> None then (d, u)
      else if length (drop (offset d) (src d)) < UInt16ByteSize
        then (d\<lparr>d_err := Some (errProducer (Err NotEnoughData))\<rparr>, u)
      else (d\<lparr>offset := offset d + UInt16ByteSize\<rparr>,
            store (Uint16 (take UInt16ByteSize (drop (offset d) (src d)))) u))"

text \<open>
  Modelled from the spec: \<^verbatim>\<open>Done\<close> is declared outside \<^verbatim>\<open>utxo_input.go\<close>; it returns
  the count of bytes consumed and the error (step 7 of decoding). The model returns the
  receiver with them.
\<close>

definition Done :: "Deserializer \<times> 'a \<Rightarrow> 'a \<times> nat \<times> error option" where
  "Done s = (case s of (d, u) \<Rightarrow> (u, offset d, d_err d))"

section \<open>The serializer\<close>

text \<open>
  Modelled from the spec: the type \<^verbatim>\<open>Serializer\<close> is declared outside
  \<^verbatim>\<open>utxo_input.go\<close>; it holds the bytes written so far and the error that stopped it,
  if any.
\<close>

record Serializer =
  buf :: "byte list"
  s_err :: "error option"

text \<open>
  Modelled from the spec: \<^verbatim>\<open>NewSerializer\<close> is declared outside \<^verbatim>\<open>utxo_input.go\<close>;
  encoding starts with no bytes and no error.
\<close>

definition NewSerializer :: Serializer where
  "NewSerializer = \<lparr>buf = [], s_err = None\<rparr>"

text \<open>
  Modelled from the spec: the serializer's \<^verbatim>\<open>AbortIf\<close> is declared outside
  \<^verbatim>\<open>utxo_input.go\<close>; it is the same short-circuit step as the deserializer's.
\<close>

definition Serializer_AbortIf :: "(unit \<Rightarrow> error option) \<Rightarrow> Serializer \<Rightarrow> Serializer" where
  "Serializer_AbortIf errProducer s =
    (if s_err s \<noteq> None then s
     else (case errProducer () of
             None \<Rightarrow> s
           | Some e \<Rightarrow> s\<lparr>s_err := Some e\<rparr>))"

text \<open>
  Modelled from the spec: \<^verbatim>\<open>WriteNum\<close> is declared outside \<^verbatim>\<open>utxo_input.go\<close>; it
  writes a little-endian integer of the width of its argument's type. Called with the type
  tag it emits one byte.
\<close>

definition WriteNum_byte :: "byte \<Rightarrow> (error \<Rightarrow> error) \<Rightarrow> Serializer \<Rightarrow> Serializer" where
  "WriteNum_byte v errProducer s =
    (if s_err s \<noteq> None then s else s\<lparr>buf := buf s @ [v]\<rparr>)"

text \<open>
  Modelled from the spec: \<^verbatim>\<open>WriteNum\<close>, called with a \<^verbatim>\<open>uint16\<close>, emits its 2
  little-endian bytes.
\<close>

definition WriteNum_uint16 :: "uint16 \<Rightarrow> (error \<Rightarrow> error) \<Rightarrow> Serializer \<Rightarrow> Serializer" where
  "WriteNum_uint16 v errProducer s =
    (if s_err s \<noteq> None then s
     else s\<lparr>buf := buf s @ [ucast v, ucast (drop_bit 8 v)]\<rparr>)"

text \<open>
  Modelled from the spec: \<^verbatim>\<open>WriteBytes\<close> is declared outside \<^verbatim>\<open>utxo_input.go\<close>; it
  writes raw bytes as they are.
\<close>

definition WriteBytes :: "byte list \<Rightarrow> (error \<Rightarrow> error) \<Rightarrow> Serializer \<Rightarrow> Serializer" where
  "WriteBytes data errProducer s =
    (if s_err s \<noteq> None then s else s\<lparr>buf := buf s @ data\<rparr>)"

text \<open>
  Modelled from the spec: the serializer's \<^verbatim>\<open>Serialize\<close> is declared outside
  \<^verbatim>\<open>utxo_input.go\<close>; it returns the bytes written, and no partial output on failure.
\<close>

definition Serializer_Serialize :: "Serializer \<Rightarrow> byte list \<times> error option" where
  "Serializer_Serialize s =
    (case s_err s of Some e \<Rightarrow> ([], Some e) | None \<Rightarrow> (buf s, None))"

section \<open>The validators\<close>

text \<open>
  Modelled from the spec: \<^verbatim>\<open>checkMinByteLength\<close> is declared outside
  \<^verbatim>\<open>utxo_input.go\<close>; it is step 1 of decoding: the buffer has at least the given length,
  else \<open>TruncatedInput\<close>.
\<close>

definition checkMinByteLength :: "nat \<Rightarrow> nat \<Rightarrow> error option" where
  "checkMinByteLength minLen len = (if len < minLen then Some (Err TruncatedInput) else None)"

text \<open>
  Modelled from the spec: \<^verbatim>\<open>checkTypeByte\<close> is declared outside \<^verbatim>\<open>utxo_input.go\<close>; it
  is step 2 of decoding: the first byte equals the expected tag, else \<open>TypeMismatch\<close>. The
  spec leaves open what it does on an empty buffer, which it never receives from
  \<^verbatim>\<open>Deserialize\<close>: there it reports \<open>TruncatedInput\<close>.
\<close>

definition checkTypeByte :: "byte list \<Rightarrow> byte \<Rightarrow> error option" where
  "checkTypeByte data shouldType =
    (case data of
       [] \<Rightarrow> Some (Err TruncatedInput)
     | b # rest \<Rightarrow> if b \<noteq> shouldType then Some (Err TypeMismatch) else None)"

text \<open>
  Modelled from the spec: \<^verbatim>\<open>utxoInputRefBoundsValidator\<close> is declared outside
  \<^verbatim>\<open>utxo_input.go\<close>; it is the domain check: the slot index is in [0,126], else
  \<open>SlotIndexOutOfRange\<close>. Its first argument, \<^verbatim>\<open>-1\<close> at both call sites, takes no part
  in the check.
\<close>

definition utxoInputRefBoundsValidator :: "int \<Rightarrow> UTXOInput \<Rightarrow> error option" where
  "utxoInputRefBoundsValidator index input =
    (if unat (TransactionOutputIndex input) < RefUTXOIndexMin
        \<or> unat (TransactionOutputIndex input) > RefUTXOIndexMax
     then Some (Err SlotIndexOutOfRange)
     else None)"

section \<open>The binary codec\<close>

text \<open>
  \<^verbatim>\<open>Deserialize\<close> and \<^verbatim>\<open>Serialize\<close> as \<^verbatim>\<open>utxo_input.go\<close> has them: each step of
  the Go method chain is one line of the \<^verbatim>\<open>let\<close>. The value of the type tag
  \<^verbatim>\<open>InputUTXO\<close> is declared outside \<^verbatim>\<open>utxo_input.go\<close> and the spec does not give it: it is
  the parameter \<open>InputUTXO\<close> of every function that uses it. \<^verbatim>\<open>Deserialize\<close> mutates its
  receiver and returns the count of bytes consumed and the error; the model returns the
  receiver as it is after the call as well.
\<close>

definition Deserialize ::
  "byte \<Rightarrow> UTXOInput \<Rightarrow> byte list \<Rightarrow> DeSerializationMode \<Rightarrow> UTXOInput \<times> nat \<times> error option" where
  "Deserialize InputUTXO u data deSeriMode =
    (let s0 = (NewDeserializer data, u);
         s1 = Deserializer_AbortIf (\<lambda>u.
                if HasMode deSeriMode DeSeriModePerformValidation then
                  (case checkMinByteLength UTXOInputSize (length data) of
                     Some err \<Rightarrow> Some (Wrapped ''invalid UTXO input bytes'' err)
                   | None \<Rightarrow>
                  (case checkTypeByte data InputUTXO of
                     Some err \<Rightarrow> Some (Wrapped ''unable to deserialize UTXO input'' err)
                   | None \<Rightarrow> None))
                else None) s0;
         s2 = Skip SmallTypeDenotationByteSize
                (Wrapped ''unable to skip UTXO input type during deserialization'') s1;
         s3 = ReadArrayOf32Bytes (\<lambda>v u. u\<lparr>TransactionID := v\<rparr>)
                (Wrapped ''unable to deserialize transaction ID in UTXO input'') s2;
         s4 = ReadNum (\<lambda>v u. u\<lparr>TransactionOutputIndex := v\<rparr>)
                (Wrapped ''unable to deserialize transaction output index in UTXO input'') s3;
         s5 = Deserializer_AbortIf (\<lambda>u.
                if HasMode deSeriMode DeSeriModePerformValidation then
                  (case utxoInputRefBoundsValidator (- 1) u of
                     Some err \<Rightarrow> Some (Wrapped ''unable to deserialize UTXO input'' err)
                   | None \<Rightarrow> None)
                else None) s4
     in Done s5)"

definition Serialize ::
  "byte \<Rightarrow> UTXOInput \<Rightarrow> DeSerializationMode \<Rightarrow> byte list \<times> error option" where
  "Serialize InputUTXO u deSeriMode =
    (let s0 = NewSerializer;
         s1 = Serializer_AbortIf (\<lambda>_.
                if HasMode deSeriMode DeSeriModePerformValidation then
                  (case utxoInputRefBoundsValidator (- 1) u of
                     Some err \<Rightarrow> Some (Wrapped ''unable to serialize UTXO input'' err)
                   | None \<Rightarrow> None)
                else None) s0;
         s2 = WriteNum_byte InputUTXO
                (Wrapped ''unable to serialize UTXO input type ID'') s1;
         s3 = WriteBytes (TransactionID u)
                (Wrapped ''unable to serialize UTXO input transaction ID'') s2;
         s4 = WriteNum_uint16 (TransactionOutputIndex u)
                (Wrapped ''unable to serialize UTXO input transaction output index'') s3
     in Serializer_Serialize s4)"

section \<open>The JSON adapter\<close>

text \<open>
  \<^verbatim>\<open>hex.DecodeString\<close> reads two digits per byte, accepts digits of either case, and
  fails on any other character and on an odd length.
\<close>

definition fromHexChar :: "char \<Rightarrow> byte option" where
  "fromHexChar c =
    (let n = (of_char c :: nat) in
     if 48 \<le> n \<and> n \<le> 57 then Some (of_nat (n - 48))
     else if 97 \<le> n \<and> n \<le> 102 then Some (of_nat (n - 97 + 10))
     else if 65 \<le> n \<and> n \<le> 70 then Some (of_nat (n - 65 + 10))
     else None)"

fun hex_DecodeString :: "string \<Rightarrow> byte list option" where
  "hex_DecodeString [] = Some []"
| "hex_DecodeString [p] = None"
| "hex_DecodeString (p # q # rest) =
    (case fromHexChar p of
       None \<Rightarrow> None
     | Some a \<Rightarrow>
    (case fromHexChar q of
       None \<Rightarrow> None
     | Some b \<Rightarrow>
    (case hex_DecodeString rest of
       None \<Rightarrow> None
     | Some bs \<Rightarrow> Some ((push_bit 4 a OR b) # bs))))"

text \<open>
  The standard library's \<^verbatim>\<open>json.Marshal\<close> and \<^verbatim>\<open>json.Unmarshal\<close> are modelled on the
  JSON document, a tree of values, not on its text; numbers are integer literals. An
  object keeps its members in order.
\<close>

datatype json =
    JNull
  | JBool bool
  | JNumber int
  | JString string
  | JArray "json list"
  | JObject "(string \<times> json) list"

text \<open>
  Modelled from the spec: the struct \<^verbatim>\<open>jsonutxoinput\<close> is declared outside
  \<^verbatim>\<open>utxo_input.go\<close>. \<^verbatim>\<open>MarshalJSON\<close> assigns a string to its \<^verbatim>\<open>TransactionID\<close> and a
  Go \<^verbatim>\<open>int\<close> to its \<^verbatim>\<open>Type\<close> and \<^verbatim>\<open>TransactionOutputIndex\<close>; the spec has the same
  three fields: a numeric type tag, the identifier as a hex string, the slot index as an
  integer.
\<close>

record jsonutxoinput =
  json_Type :: int
  json_TransactionID :: string
  json_TransactionOutputIndex :: int

text \<open>Go's zero value of \<^verbatim>\<open>jsonutxoinput\<close>, which \<^verbatim>\<open>&jsonutxoinput{}\<close> allocates.\<close>

definition jsonutxoinput_zero :: jsonutxoinput where
  "jsonutxoinput_zero =
    \<lparr>json_Type = 0, json_TransactionID = [], json_TransactionOutputIndex = 0\<rparr>"

text \<open>A Go \<^verbatim>\<open>int\<close> has 64 bits and a sign: these are the integers it can hold.\<close>

definition is_go_int :: "int \<Rightarrow> bool" where
  "is_go_int n = (- (2 ^ 63) \<le> n \<and> n < 2 ^ 63)"

text \<open>
  Modelled from the spec: the field tags of \<^verbatim>\<open>jsonutxoinput\<close>, which name the members
  that \<^verbatim>\<open>json.Marshal\<close> writes, are declared outside \<^verbatim>\<open>utxo_input.go\<close>. The spec's JSON
  form names them \<^verbatim>\<open>type\<close>, \<^verbatim>\<open>transactionId\<close> and \<^verbatim>\<open>transactionOutputIndex\<close>, in this
  order. Marshalling a struct of two integers and a string does not fail.
\<close>

definition json_Marshal :: "jsonutxoinput \<Rightarrow> json \<times> error option" where
  "json_Marshal j =
    (JObject [(''type'', JNumber (json_Type j)),
              (''transactionId'', JString (json_TransactionID j)),
              (''transactionOutputIndex'', JNumber (json_TransactionOutputIndex j))],
     None)"

text \<open>
  \<^verbatim>\<open>json.Unmarshal\<close> matches the name of a member with the name of a field without regard
  to case; \<open>fold_name\<close> folds the ASCII letters of a name to lower case.
\<close>

definition to_lower :: "char \<Rightarrow> char" where
  "to_lower c =
    (let n = (of_char c :: nat) in if 65 \<le> n \<and> n \<le> 90 then char_of (n + 32) else c)"

definition fold_name :: "string \<Rightarrow> string" where
  "fold_name name = map to_lower name"

text \<open>
  \<^verbatim>\<open>json.Unmarshal\<close> keeps the first error it meets and goes on decoding.
\<close>

definition first_error :: "error option \<Rightarrow> error \<Rightarrow> error option" where
  "first_error saved e = (case saved of None \<Rightarrow> Some e | Some e0 \<Rightarrow> Some e0)"

text \<open>
  Modelled from the spec: the field tags of \<^verbatim>\<open>jsonutxoinput\<close>, by which
  \<^verbatim>\<open>json.Unmarshal\<close> finds the field of a member, are declared outside \<^verbatim>\<open>utxo_input.go\<close>;
  the names are those of the spec's JSON form, and a value of the wrong JSON type is the
  spec's \<open>MalformedJSON\<close>. The decoding of one member is the standard library's: a member
  of no field's name is ignored; \<^verbatim>\<open>null\<close> leaves the field as it is; a number goes into
  an \<^verbatim>\<open>int\<close> field if a Go \<^verbatim>\<open>int\<close> can hold it and a string into a string field; any
  other value is an error and leaves the field as it is.
\<close>

definition json_decode_member ::
  "string \<times> json \<Rightarrow> jsonutxoinput \<times> error option \<Rightarrow> jsonutxoinput \<times> error option" where
  "json_decode_member m s =
    (case m of (name, v) \<Rightarrow>
     case s of (j, saved) \<Rightarrow>
      if fold_name name = fold_name ''type'' then
        (case v of
           JNull \<Rightarrow> (j, saved)
         | JNumber t \<Rightarrow>
            if is_go_int t then (j\<lparr>json_Type := t\<rparr>, saved)
            else (j, first_error saved (Err MalformedJSON))
         | _ \<Rightarrow> (j, first_error saved (Err MalformedJSON)))
      else if fold_name name = fold_name ''transactionId'' then
        (case v of
           JNull \<Rightarrow> (j, saved)
         | JString str \<Rightarrow> (j\<lparr>json_TransactionID := str\<rparr>, saved)
         | _ \<Rightarrow> (j, first_error saved (Err MalformedJSON)))
      else if fold_name name = fold_name ''transactionOutputIndex'' then
        (case v of
           JNull \<Rightarrow> (j, saved)
         | JNumber i \<Rightarrow>
            if is_go_int i then (j\<lparr>json_TransactionOutputIndex := i\<rparr>, saved)
            else (j, first_error saved (Err MalformedJSON))
         | _ \<Rightarrow> (j, first_error saved (Err MalformedJSON)))
      else (j, saved))"

text \<open>
  \<^verbatim>\<open>json.Unmarshal\<close> into a pointer to a \<^verbatim>\<open>jsonutxoinput\<close>, as the standard library does
  it: \<^verbatim>\<open>null\<close> changes nothing and is no error; an object is decoded member by member,
  in order, so that a later member wins over an earlier one and an absent member leaves
  its field as it is; any other value is an error. The result is the struct after the
  call and the error.
\<close>

definition json_Unmarshal :: "json \<Rightarrow> jsonutxoinput \<Rightarrow> jsonutxoinput \<times> error option" where
  "json_Unmarshal doc j =
    (case doc of
       JNull \<Rightarrow> (j, None)
     | JObject members \<Rightarrow> foldl (\<lambda>s m. json_decode_member m s) (j, None) members
     | _ \<Rightarrow> (j, Some (Err MalformedJSON)))"

text \<open>
  Modelled from the spec: the method \<^verbatim>\<open>ToSerializable\<close> of \<^verbatim>\<open>jsonutxoinput\<close> is
  declared outside \<^verbatim>\<open>utxo_input.go\<close>. The spec has it fail with \<open>InvalidHexEncoding\<close> if
  the identifier is not valid hex or not exactly 64 hex characters (32 bytes), then apply
  the domain bounds check to the slot index (\<open>SlotIndexOutOfRange\<close> outside [0,126]); the
  type tag is not checked. The index is narrowed to a \<^verbatim>\<open>uint16\<close> after the check.
\<close>

definition ToSerializable :: "jsonutxoinput \<Rightarrow> error + UTXOInput" where
  "ToSerializable j =
    (case hex_DecodeString (json_TransactionID j) of
       None \<Rightarrow> Inl (Err InvalidHexEncoding)
     | Some transactionIDBytes \<Rightarrow>
        if length transactionIDBytes \<noteq> TransactionIDLength
          then Inl (Err InvalidHexEncoding)
        else if json_TransactionOutputIndex j < int RefUTXOIndexMin
                \<or> json_TransactionOutputIndex j > int RefUTXOIndexMax
          then Inl (Err SlotIndexOutOfRange)
        else Inr \<lparr>TransactionID = transactionIDBytes,
                  TransactionOutputIndex = word_of_int (json_TransactionOutputIndex j)\<rparr>)"

text \<open>
  \<^verbatim>\<open>MarshalJSON\<close> as \<^verbatim>\<open>utxo_input.go\<close> has it: it fills a zero \<^verbatim>\<open>jsonutxoinput\<close> field
  by field and marshals it. \<^verbatim>\<open>int(x)\<close> of an unsigned \<open>x\<close> is its value.
\<close>

definition MarshalJSON :: "byte \<Rightarrow> UTXOInput \<Rightarrow> json \<times> error option" where
  "MarshalJSON InputUTXO u =
    (let jsonUTXO = jsonutxoinput_zero;
         jsonUTXO = jsonUTXO\<lparr>json_TransactionID := hex_EncodeToString (TransactionID u)\<rparr>;
         jsonUTXO = jsonUTXO\<lparr>json_TransactionOutputIndex := uint (TransactionOutputIndex u)\<rparr>;
         jsonUTXO = jsonUTXO\<lparr>json_Type := uint InputUTXO\<rparr>
     in json_Marshal jsonUTXO)"

text \<open>
  \<^verbatim>\<open>UnmarshalJSON\<close> as \<^verbatim>\<open>utxo_input.go\<close> has it, with its two collaborators as
  parameters: the decoder, which fills a zero \<^verbatim>\<open>jsonutxoinput\<close> from the raw input, and
  the conversion. The conversion returns a \<^verbatim>\<open>UTXOInput\<close>, the only kind of value for which
  the Go type assertion \<^verbatim>\<open>seri.(*UTXOInput)\<close> does not panic. The result is the receiver
  after the call and the error.
\<close>

definition UnmarshalJSON_with ::
  "('b \<Rightarrow> jsonutxoinput \<Rightarrow> jsonutxoinput \<times> error option) \<Rightarrow>
   (jsonutxoinput \<Rightarrow> error + UTXOInput) \<Rightarrow> UTXOInput \<Rightarrow> 'b \<Rightarrow> UTXOInput \<times> error option" where
  "UnmarshalJSON_with unmarshal toSerializable u bytes =
    (case unmarshal bytes jsonutxoinput_zero of
       (jsonUTXO, Some err) \<Rightarrow> (u, Some err)
     | (jsonUTXO, None) \<Rightarrow>
        (case toSerializable jsonUTXO of
           Inl err \<Rightarrow> (u, Some err)
         | Inr seri \<Rightarrow> (seri, None)))"

text \<open>\<^verbatim>\<open>UnmarshalJSON\<close> with the decoder and the conversion of this repository.\<close>

definition UnmarshalJSON :: "UTXOInput \<Rightarrow> json \<Rightarrow> UTXOInput \<times> error option" where
  "UnmarshalJSON u bytes = UnmarshalJSON_with json_Unmarshal ToSerializable u bytes"

section \<open>Auxiliary definitions for the statements\<close>

text \<open>
  \<open>wire_fields data\<close> is the record that the wire layout assigns to a buffer: bytes
  1 to 32 are the transaction ID and bytes 33 and 34 the little-endian output index.
  \<open>zero_input\<close> is Go's zero value of \<^verbatim>\<open>UTXOInput\<close>; \<open>sample_input i\<close> is the record with
  the transaction ID \<^verbatim>\<open>0x11\<close> repeated 32 times and the output index \<open>i\<close>;
  \<open>sample_bytes t i\<close> is a 35-byte buffer with the first byte \<open>t\<close> and the same fields.
\<close>

definition wire_fields :: "byte list \<Rightarrow> UTXOInput" where
  "wire_fields data =
    \<lparr>TransactionID = take 32 (drop 1 data),
     TransactionOutputIndex = Uint16 (take 2 (drop 33 data))\<rparr>"

definition zero_input :: UTXOInput where
  "zero_input = \<lparr>TransactionID = replicate 32 0, TransactionOutputIndex = 0\<rparr>"

definition sample_input :: "uint16 \<Rightarrow> UTXOInput" where
  "sample_input i = \<lparr>TransactionID = replicate 32 17, TransactionOutputIndex = i\<rparr>"

definition sample_bytes :: "byte \<Rightarrow> uint16 \<Rightarrow> byte list" where
  "sample_bytes t i = t # replicate 32 17 @ [ucast i, ucast (drop_bit 8 i)]"

text \<open>
  \<open>utxo_input_doc t s n\<close> is the JSON object with the type tag \<open>t\<close>, the transaction ID
  string \<open>s\<close> and the output index \<open>n\<close>.
\<close>

definition utxo_input_doc :: "int \<Rightarrow> string \<Rightarrow> int \<Rightarrow> json" where
  "utxo_input_doc t s n =
    JObject [(''type'', JNumber t),
             (''transactionId'', JString s),
             (''transactionOutputIndex'', JNumber n)]"

section \<open>Lemmas on the primitives\<close>

lemmas size_defs = SmallTypeDenotationByteSize_def TransactionIDLength_def UInt16ByteSize_def
  UTXOInputSize_def RefUTXOIndexMin_def RefUTXOIndexMax_def

lemmas deser_defs = Deserialize_def NewDeserializer_def Deserializer_AbortIf_def Skip_def
  ReadArrayOf32Bytes_def ReadNum_def Done_def HasMode_def checkMinByteLength_def
  checkTypeByte_def utxoInputRefBoundsValidator_def

lemmas ser_defs = Serialize_def NewSerializer_def Serializer_AbortIf_def WriteNum_byte_def
  WriteBytes_def WriteNum_uint16_def Serializer_Serialize_def HasMode_def
  utxoInputRefBoundsValidator_def

lemmas sample_defs = zero_input_def sample_input_def sample_bytes_def

lemma le16_join:
  "ucast (ucast v :: byte) OR push_bit 8 (ucast (ucast (drop_bit 8 v) :: byte)) = (v :: uint16)"
  by (rule bit_word_eqI) (auto simp: bit_simps)

lemma Uint16_pair: "Uint16 [ucast v, ucast (drop_bit 8 v)] = v"
  by (simp add: Uint16_def le16_join)

lemma wire_fields_index:
  "35 \<le> length data \<Longrightarrow>
    TransactionOutputIndex (wire_fields data) =
      ucast (data ! 33) OR push_bit 8 (ucast (data ! 34))"
  by (simp add: wire_fields_def Uint16_def)

subsection \<open>What the two pipelines compute\<close>

lemma Deserialize_short_strict:
  "length data < 35 \<Longrightarrow>
    Deserialize tag u data DeSeriModePerformValidation =
      (u, 0, Some (Wrapped ''invalid UTXO input bytes'' (Err TruncatedInput)))"
  by (simp add: deser_defs size_defs)

lemma Deserialize_none_long:
  "35 \<le> length data \<Longrightarrow>
    Deserialize tag u data DeSeriModeNoValidation = (wire_fields data, 35, None)"
  by (auto simp: deser_defs size_defs wire_fields_def)

lemma Deserialize_strict_tag:
  "35 \<le> length data \<Longrightarrow> data ! 0 \<noteq> tag \<Longrightarrow>
    Deserialize tag u data DeSeriModePerformValidation =
      (u, 0, Some (Wrapped ''unable to deserialize UTXO input'' (Err TypeMismatch)))"
  by (cases data) (simp_all add: deser_defs size_defs)

lemma Deserialize_strict_long:
  "35 \<le> length data \<Longrightarrow> data ! 0 = tag \<Longrightarrow>
    Deserialize tag u data DeSeriModePerformValidation =
      (wire_fields data, 35,
       if 126 < unat (TransactionOutputIndex (wire_fields data))
       then Some (Wrapped ''unable to deserialize UTXO input'' (Err SlotIndexOutOfRange))
       else None)"
  by (cases data) (simp_all add: deser_defs size_defs wire_fields_def)

lemma Serialize_none:
  "Serialize tag u DeSeriModeNoValidation =
     (tag # TransactionID u @
        [ucast (TransactionOutputIndex u), ucast (drop_bit 8 (TransactionOutputIndex u))],
      None)"
  by (simp add: ser_defs size_defs)

lemma Serialize_strict:
  "Serialize tag u DeSeriModePerformValidation =
     (if 126 < unat (TransactionOutputIndex u)
      then ([], Some (Wrapped ''unable to serialize UTXO input'' (Err SlotIndexOutOfRange)))
      else (tag # TransactionID u @
              [ucast (TransactionOutputIndex u), ucast (drop_bit 8 (TransactionOutputIndex u))],
            None))"
  by (simp add: ser_defs size_defs)

lemma wire_fields_encoded:
  "length (TransactionID u) = 32 \<Longrightarrow>
   wire_fields (tag # TransactionID u @
     [ucast (TransactionOutputIndex u), ucast (drop_bit 8 (TransactionOutputIndex u))]) = u"
  by (simp add: wire_fields_def Uint16_pair)

subsection \<open>The identifier and the hex form\<close>

lemma PutUint16_pair: "PutUint16 [a, b] v = Some [ucast v, ucast (drop_bit 8 v)]"
  by (simp add: PutUint16_def)

lemma ID_value:
  "ID u = (u, Some (take 32 (TransactionID u @ replicate 32 0) @
      [ucast (TransactionOutputIndex u), ucast (drop_bit 8 (TransactionOutputIndex u))]))"
proof -
  have two: "replicate 2 (0::byte) = [0, 0]"
    by (simp add: numeral_2_eq_2)
  have c: "copy_bytes (replicate 32 0) (TransactionID u) =
      take 32 (TransactionID u @ replicate 32 0)"
    by (simp add: copy_bytes_def)
  show ?thesis
    by (simp add: ID_def size_defs Let_def c two PutUint16_pair)
qed

lemma fromHexChar_table:
  "\<forall>n \<in> set [0..<16]. fromHexChar (hextable ! n) = Some (of_nat n)"
  by code_simp

lemma fromHexChar_hextable: "n < 16 \<Longrightarrow> fromHexChar (hextable ! n) = Some (of_nat n)"
  using fromHexChar_table by simp

lemma high_nibble_less: "unat (drop_bit 4 (v::byte)) < 16"
proof -
  have "unat v < 256"
    using unsigned_less [of v, where 'a = nat] by simp
  moreover have "unat (drop_bit 4 v) = drop_bit 4 (unat v)"
    by (rule unat_drop_bit_eq)
  moreover have "drop_bit 4 (unat v) = unat v div 16"
    by (simp add: drop_bit_eq_div)
  ultimately show ?thesis by simp
qed

lemma low_nibble_less: "unat ((v::byte) AND 15) < 16"
proof -
  have "unat (v AND 15) \<le> unat (15 :: byte)"
    by (rule word_and_le1 [THEN word_le_nat_alt [THEN iffD1]])
  then show ?thesis by simp
qed

lemma nibbles_join: "push_bit 4 (drop_bit 4 v) OR (v AND 15) = (v::byte)"
proof -
  have "push_bit 4 (drop_bit 4 v) OR (v AND mask 4) = v"
    by (rule bit_word_eqI) (auto simp: bit_simps)
  then show ?thesis by (simp add: mask_eq_exp_minus_1)
qed

lemma hex_byte_decode:
  "hex_DecodeString (hex_byte v @ rest) =
     (case hex_DecodeString rest of None \<Rightarrow> None | Some bs \<Rightarrow> Some (v # bs))"
  by (simp add: hex_byte_def fromHexChar_hextable high_nibble_less low_nibble_less
      nibbles_join split: option.splits)

lemma hex_roundtrip: "hex_DecodeString (hex_EncodeToString bs) = Some bs"
  by (induction bs) (simp_all add: hex_EncodeToString_def hex_byte_decode)

lemma hex_DecodeString_length: "hex_DecodeString s = Some bs \<Longrightarrow> length s = 2 * length bs"
  by (induction s arbitrary: bs rule: hex_DecodeString.induct) (auto split: option.splits)

lemma hex_EncodeToString_length: "length (hex_EncodeToString bs) = 2 * length bs"
  by (induction bs) (simp_all add: hex_EncodeToString_def hex_byte_def)

lemma length_hextable: "length hextable = 16"
  by (simp add: hextable_def)

lemma hextable_chars: "n < 16 \<Longrightarrow> hextable ! n \<in> set hextable"
  by (rule nth_mem) (simp add: length_hextable)

lemma hex_EncodeToString_chars: "set (hex_EncodeToString bs) \<subseteq> set hextable"
  by (induction bs)
    (simp_all add: hex_EncodeToString_def hex_byte_def hextable_chars
      high_nibble_less low_nibble_less)

lemma hex_EncodeToString_nth:
  "k < length bs \<Longrightarrow>
     hex_EncodeToString bs ! (2 * k) = hextable ! unat (drop_bit 4 (bs ! k)) \<and>
     hex_EncodeToString bs ! (2 * k + 1) = hextable ! unat (bs ! k AND 15)"
proof (induction bs arbitrary: k)
  case Nil
  then show ?case by simp
next
  case (Cons b bs)
  show ?case
  proof (cases k)
    case 0
    then show ?thesis by (simp add: hex_EncodeToString_def hex_byte_def)
  next
    case (Suc m)
    with Cons.prems have m: "m < length bs" by simp
    have step: "hex_EncodeToString (b # bs) = hex_byte b @ hex_EncodeToString bs"
      by (simp add: hex_EncodeToString_def)
    have l: "length (hex_byte b) = 2" by (simp add: hex_byte_def)
    show ?thesis
      using Cons.IH [OF m] by (simp add: step Suc nth_append l)
  qed
qed

subsection \<open>The JSON adapter\<close>

lemma fold_name_fields:
  "fold_name ''type'' = ''type''"
  "fold_name ''transactionId'' = ''transactionid''"
  "fold_name ''transactionOutputIndex'' = ''transactionoutputindex''"
  by code_simp+

lemmas json_defs = UnmarshalJSON_def UnmarshalJSON_with_def json_Unmarshal_def
  json_decode_member_def first_error_def fold_name_fields jsonutxoinput_zero_def
  utxo_input_doc_def

lemma MarshalJSON_value:
  "MarshalJSON tag u =
    (utxo_input_doc (uint tag) (hex_EncodeToString (TransactionID u))
       (uint (TransactionOutputIndex u)), None)"
  by (simp add: MarshalJSON_def json_Marshal_def jsonutxoinput_zero_def utxo_input_doc_def)

lemma is_go_int_byte: "is_go_int (uint (w :: byte))"
proof -
  have "(- (2 ^ 63) :: int) \<le> 0" by simp
  also have "0 \<le> uint w" by simp
  finally have lo: "- (2 ^ 63) \<le> uint w" .
  have "uint w < 2 ^ 8" using uint_bounded [of w] by simp
  also have "(2 ^ 8 :: int) < 2 ^ 63" by simp
  finally have hi: "uint w < 2 ^ 63" .
  from lo hi show ?thesis unfolding is_go_int_def by (rule conjI)
qed

lemma is_go_int_uint16: "is_go_int (uint (w :: uint16))"
proof -
  have "(- (2 ^ 63) :: int) \<le> 0" by simp
  also have "0 \<le> uint w" by simp
  finally have lo: "- (2 ^ 63) \<le> uint w" .
  have "uint w < 2 ^ 16" using uint_bounded [of w] by simp
  also have "(2 ^ 16 :: int) < 2 ^ 63" by simp
  finally have hi: "uint w < 2 ^ 63" .
  from lo hi show ?thesis unfolding is_go_int_def by (rule conjI)
qed

lemma UnmarshalJSON_object:
  "is_go_int t \<Longrightarrow> is_go_int n \<Longrightarrow>
    UnmarshalJSON r (utxo_input_doc t s n) =
      (case ToSerializable
             \<lparr>json_Type = t, json_TransactionID = s, json_TransactionOutputIndex = n\<rparr> of
         Inl err \<Rightarrow> (r, Some err)
       | Inr seri \<Rightarrow> (seri, None))"
  by (simp add: json_defs)

lemma ToSerializable_Inr:
  "ToSerializable j = Inr v \<Longrightarrow>
    0 \<le> json_TransactionOutputIndex j \<and> json_TransactionOutputIndex j \<le> 126 \<and>
    TransactionOutputIndex v = word_of_int (json_TransactionOutputIndex j) \<and>
    hex_DecodeString (json_TransactionID j) = Some (TransactionID v) \<and>
    length (TransactionID v) = 32"
  by (auto simp: ToSerializable_def size_defs split: option.splits if_splits)

lemma unat_small: "0 \<le> n \<Longrightarrow> n \<le> 126 \<Longrightarrow> unat (word_of_int n :: uint16) = nat n"
proof -
  assume a: "0 \<le> n" "n \<le> 126"
  then have "take_bit 16 n = n"
    by (simp add: take_bit_int_eq_self)
  then show ?thesis
    by (simp add: unsigned_of_int)
qed

lemma UnmarshalJSON_success:
  "snd (UnmarshalJSON r doc) = None \<Longrightarrow>
     unat (TransactionOutputIndex (fst (UnmarshalJSON r doc))) \<le> 126"
proof -
  assume ok: "snd (UnmarshalJSON r doc) = None"
  then obtain j v where v: "ToSerializable j = Inr v" and r: "fst (UnmarshalJSON r doc) = v"
    by (auto simp: UnmarshalJSON_def UnmarshalJSON_with_def
        split: prod.splits option.splits sum.splits)
  from ToSerializable_Inr [OF v] show ?thesis
    by (simp add: r unat_small nat_le_iff)
qed

section \<open>The claims\<close>

text \<open>
  C1. Binary round trip: for every record whose transaction ID has its 32 bytes and whose
  output index is in [0,126], serializing with validation succeeds, and deserializing the
  bytes with validation, into any receiver \<open>r\<close>, succeeds, consumes 35 bytes and leaves the
  receiver equal to the original record.
\<close>

theorem Serialize_Deserialize_roundtrip:
  assumes "UTXOInput_wf u"
    and "RefUTXOIndexMin \<le> unat (TransactionOutputIndex u)"
    and "unat (TransactionOutputIndex u) \<le> RefUTXOIndexMax"
  shows "snd (Serialize tag u DeSeriModePerformValidation) = None \<and>
         Deserialize tag r (fst (Serialize tag u DeSeriModePerformValidation))
           DeSeriModePerformValidation = (u, UTXOInputSize, None)"
proof -
  let ?bytes = "tag # TransactionID u @
    [ucast (TransactionOutputIndex u), ucast (drop_bit 8 (TransactionOutputIndex u))]"
  have len: "length (TransactionID u) = 32"
    using assms(1) by (simp add: UTXOInput_wf_def TransactionIDLength_def)
  have ser: "Serialize tag u DeSeriModePerformValidation = (?bytes, None)"
    using assms(3) by (simp add: Serialize_strict RefUTXOIndexMax_def)
  have dec: "wire_fields ?bytes = u"
    using len by (rule wire_fields_encoded)
  have "Deserialize tag r ?bytes DeSeriModePerformValidation = (u, 35, None)"
    using len assms(3) by (simp add: Deserialize_strict_long dec RefUTXOIndexMax_def)
  then show ?thesis
    by (simp add: ser size_defs)
qed

theorem Serialize_Deserialize_roundtrip_witness:
  "UTXOInput_wf (sample_input 126) \<and>
   RefUTXOIndexMin \<le> unat (TransactionOutputIndex (sample_input 126)) \<and>
   unat (TransactionOutputIndex (sample_input 126)) \<le> RefUTXOIndexMax \<and>
   snd (Serialize 0 (sample_input 126) DeSeriModePerformValidation) = None \<and>
   Deserialize 0 zero_input (fst (Serialize 0 (sample_input 126) DeSeriModePerformValidation))
     DeSeriModePerformValidation = (sample_input 126, 35, None)"
proof -
  have a: "UTXOInput_wf (sample_input 126)"
    by (simp add: UTXOInput_wf_def sample_input_def TransactionIDLength_def)
  have b: "RefUTXOIndexMin \<le> unat (TransactionOutputIndex (sample_input 126))"
    by (simp add: RefUTXOIndexMin_def)
  have c: "unat (TransactionOutputIndex (sample_input 126)) \<le> RefUTXOIndexMax"
    by (simp add: sample_input_def RefUTXOIndexMax_def)
  show ?thesis
    using a b c Serialize_Deserialize_roundtrip [OF a b c, of 0 zero_input]
    by (simp add: size_defs)
qed

text \<open>
  C2. Strict encoding, bounds and atomicity: with validation, \<^verbatim>\<open>Serialize\<close> fails with
  \<open>SlotIndexOutOfRange\<close> for every record whose output index is above 126 (127 included)
  and returns no bytes; for every record whose output index is at most 126 (0 and 126
  included) it succeeds with exactly 35 bytes: the type tag, the 32 bytes of the
  transaction ID as they are, the low byte of the index, the high byte of the index.
\<close>
theorem Serialize_strict_bounds:
  "(RefUTXOIndexMax < unat (TransactionOutputIndex u) \<longrightarrow>
      fst (Serialize tag u DeSeriModePerformValidation) = [] \<and>
      fails_with (snd (Serialize tag u DeSeriModePerformValidation)) SlotIndexOutOfRange) \<and>
   (UTXOInput_wf u \<and> unat (TransactionOutputIndex u) \<le> RefUTXOIndexMax \<longrightarrow>
      Serialize tag u DeSeriModePerformValidation =
        (tag # TransactionID u @
           [ucast (TransactionOutputIndex u), ucast (drop_bit 8 (TransactionOutputIndex u))],
         None) \<and>
      length (fst (Serialize tag u DeSeriModePerformValidation)) = UTXOInputSize)"
  by (simp add: Serialize_strict fails_with_def UTXOInput_wf_def size_defs)

theorem Serialize_strict_bounds_witness:
  "Serialize 0 (sample_input 127) DeSeriModePerformValidation =
     ([], Some (Wrapped ''unable to serialize UTXO input'' (Err SlotIndexOutOfRange))) \<and>
   fails_with (snd (Serialize 0 (sample_input 127) DeSeriModePerformValidation)) SlotIndexOutOfRange \<and>
   UTXOInput_wf (sample_input 126) \<and> UTXOInput_wf (sample_input 0) \<and>
   Serialize 0 (sample_input 126) DeSeriModePerformValidation = (sample_bytes 0 126, None) \<and>
   Serialize 0 (sample_input 0) DeSeriModePerformValidation = (sample_bytes 0 0, None) \<and>
   length (sample_bytes 0 126) = 35 \<and> length (sample_bytes 0 0) = 35"
proof -
  have hi: "RefUTXOIndexMax < unat (TransactionOutputIndex (sample_input 127))"
    by (simp add: sample_input_def RefUTXOIndexMax_def)
  have wf: "UTXOInput_wf (sample_input 126)" "UTXOInput_wf (sample_input 0)"
    by (simp_all add: UTXOInput_wf_def sample_input_def TransactionIDLength_def)
  have lo: "unat (TransactionOutputIndex (sample_input 126)) \<le> RefUTXOIndexMax"
    "unat (TransactionOutputIndex (sample_input 0)) \<le> RefUTXOIndexMax"
    by (simp_all add: sample_input_def RefUTXOIndexMax_def)
  have "Serialize 0 (sample_input 127) DeSeriModePerformValidation =
     ([], Some (Wrapped ''unable to serialize UTXO input'' (Err SlotIndexOutOfRange)))"
    by (simp add: Serialize_strict sample_input_def)
  then show ?thesis
    using hi wf lo Serialize_strict_bounds [of "sample_input 127" 0]
      Serialize_strict_bounds [of "sample_input 126" 0]
      Serialize_strict_bounds [of "sample_input 0" 0]
    by (simp add: sample_defs)
qed

text \<open>
  C3. Strict decoding, truncation and exact consumption: with validation, \<^verbatim>\<open>Deserialize\<close>
  fails with \<open>TruncatedInput\<close> on every buffer shorter than 35 bytes. On every buffer of at
  least 35 bytes whose first byte is the type tag and whose bytes 33 and 34 are a
  little-endian index of at most 126, it succeeds, reports 35 bytes consumed, and the
  result is the one for the first 35 bytes alone: bytes after them are not read.
\<close>
theorem Deserialize_strict_truncation:
  "(length data < UTXOInputSize \<longrightarrow>
      fails_with (snd (snd (Deserialize tag u data DeSeriModePerformValidation))) TruncatedInput) \<and>
   (UTXOInputSize \<le> length data \<and> data ! 0 = tag \<and>
    unat (ucast (data ! 33) OR push_bit 8 (ucast (data ! 34)) :: uint16) \<le> RefUTXOIndexMax \<longrightarrow>
      Deserialize tag u data DeSeriModePerformValidation =
        (\<lparr>TransactionID = take 32 (drop 1 data),
          TransactionOutputIndex = ucast (data ! 33) OR push_bit 8 (ucast (data ! 34))\<rparr>,
         UTXOInputSize, None) \<and>
      Deserialize tag u (take UTXOInputSize data) DeSeriModePerformValidation =
        Deserialize tag u data DeSeriModePerformValidation)"
proof -
  have short: "length data < UTXOInputSize \<Longrightarrow>
      fails_with (snd (snd (Deserialize tag u data DeSeriModePerformValidation))) TruncatedInput"
    by (simp add: Deserialize_short_strict fails_with_def size_defs)
  have wf35: "wire_fields (take 35 data) = wire_fields data"
    by (simp add: wire_fields_def take_drop)
  have long: "Deserialize tag u data DeSeriModePerformValidation =
        (\<lparr>TransactionID = take 32 (drop 1 data),
          TransactionOutputIndex = ucast (data ! 33) OR push_bit 8 (ucast (data ! 34))\<rparr>,
         UTXOInputSize, None) \<and>
      Deserialize tag u (take UTXOInputSize data) DeSeriModePerformValidation =
        Deserialize tag u data DeSeriModePerformValidation"
    if a: "UTXOInputSize \<le> length data" and b: "data ! 0 = tag"
      and c: "unat (ucast (data ! 33) OR push_bit 8 (ucast (data ! 34)) :: uint16) \<le> RefUTXOIndexMax"
  proof -
    have len: "35 \<le> length data" using a by (simp add: size_defs)
    have idx: "TransactionOutputIndex (wire_fields data) =
        ucast (data ! 33) OR push_bit 8 (ucast (data ! 34))"
      using len by (rule wire_fields_index)
    have rec: "wire_fields data = \<lparr>TransactionID = take 32 (drop 1 data),
          TransactionOutputIndex = ucast (data ! 33) OR push_bit 8 (ucast (data ! 34))\<rparr>"
      using idx by (simp add: wire_fields_def)
    have ok: "\<not> 126 < unat (TransactionOutputIndex (wire_fields data))"
      using c idx by (simp add: RefUTXOIndexMax_def)
    have full: "Deserialize tag u data DeSeriModePerformValidation = (wire_fields data, 35, None)"
      using len b ok by (simp add: Deserialize_strict_long)
    have len': "35 \<le> length (take 35 data)" using len by simp
    have b': "take 35 data ! 0 = tag" using b by simp
    have "Deserialize tag u (take 35 data) DeSeriModePerformValidation = (wire_fields data, 35, None)"
      using ok by (simp add: Deserialize_strict_long [OF len' b'] wf35)
    then show ?thesis using full rec by (simp add: size_defs)
  qed
  show ?thesis using short long by blast
qed


theorem Deserialize_strict_truncation_witness:
  "length (take 34 (sample_bytes 0 5)) < UTXOInputSize \<and>
   fails_with (snd (snd (Deserialize 0 zero_input (take 34 (sample_bytes 0 5))
      DeSeriModePerformValidation))) TruncatedInput \<and>
   UTXOInputSize \<le> length (sample_bytes 0 5 @ [255, 255]) \<and>
   (sample_bytes 0 5 @ [255, 255]) ! 0 = 0 \<and>
   Deserialize 0 zero_input (sample_bytes 0 5 @ [255, 255]) DeSeriModePerformValidation =
     (sample_input 5, 35, None) \<and>
   Deserialize 0 zero_input (sample_bytes 0 5) DeSeriModePerformValidation =
     (sample_input 5, 35, None)"
proof -
  have a: "length (take 34 (sample_bytes 0 5)) < UTXOInputSize"
    by (simp add: sample_defs size_defs)
  have b: "UTXOInputSize \<le> length (sample_bytes 0 5 @ [255, 255])"
    by (simp add: sample_defs size_defs)
  have c: "(sample_bytes 0 5 @ [255, 255]) ! 0 = 0"
    by (simp add: sample_defs)
  have d: "unat (ucast ((sample_bytes 0 5 @ [255, 255]) ! 33) OR
      push_bit 8 (ucast ((sample_bytes 0 5 @ [255, 255]) ! 34)) :: uint16) \<le> RefUTXOIndexMax"
    by (simp add: sample_defs size_defs nth_append)
  have e: "take UTXOInputSize (sample_bytes 0 5 @ [255, 255]) = sample_bytes 0 5"
    by (simp add: sample_defs size_defs)
  show ?thesis
    using a b c d e
      Deserialize_strict_truncation [of "take 34 (sample_bytes 0 5)" 0 zero_input]
      Deserialize_strict_truncation [of "sample_bytes 0 5 @ [255, 255]" 0 zero_input]
    by (simp add: sample_defs size_defs nth_append)
qed

text \<open>
  C4. The type-tag check depends on the mode: on every 35-byte buffer whose first byte is not
  the type tag, \<^verbatim>\<open>Deserialize\<close> with validation fails with \<open>TypeMismatch\<close>, and without
  validation it succeeds with the fields of the buffer and 35 bytes consumed; the first
  byte is discarded, so replacing it by any byte \<open>b\<close> leaves the result unchanged.
\<close>
theorem Deserialize_type_tag_mode:
  assumes "length data = UTXOInputSize" and "data ! 0 \<noteq> tag"
  shows "fails_with (snd (snd (Deserialize tag u data DeSeriModePerformValidation))) TypeMismatch \<and>
         Deserialize tag u data DeSeriModeNoValidation =
           (\<lparr>TransactionID = take 32 (drop 1 data),
             TransactionOutputIndex = ucast (data ! 33) OR push_bit 8 (ucast (data ! 34))\<rparr>,
            UTXOInputSize, None) \<and>
         Deserialize tag u (data[0 := b]) DeSeriModeNoValidation =
           Deserialize tag u data DeSeriModeNoValidation"
proof -
  have len: "35 \<le> length data" using assms(1) by (simp add: size_defs)
  have strict: "fails_with (snd (snd (Deserialize tag u data DeSeriModePerformValidation))) TypeMismatch"
    using len assms(2) by (simp add: Deserialize_strict_tag fails_with_def)
  have rec: "wire_fields data = \<lparr>TransactionID = take 32 (drop 1 data),
          TransactionOutputIndex = ucast (data ! 33) OR push_bit 8 (ucast (data ! 34))\<rparr>"
    using wire_fields_index [OF len] by (simp add: wire_fields_def)
  have upd: "wire_fields (data[0 := b]) = wire_fields data"
    by (simp add: wire_fields_def drop_update_cancel)
  have len': "35 \<le> length (data[0 := b])" using len by simp
  show ?thesis
    using strict rec upd
    by (simp add: Deserialize_none_long [OF len] Deserialize_none_long [OF len'] size_defs)
qed

theorem Deserialize_type_tag_mode_witness:
  "length (sample_bytes 9 5) = UTXOInputSize \<and> sample_bytes 9 5 ! 0 \<noteq> 0 \<and>
   Deserialize 0 zero_input (sample_bytes 9 5) DeSeriModePerformValidation =
     (zero_input, 0, Some (Wrapped ''unable to deserialize UTXO input'' (Err TypeMismatch))) \<and>
   fails_with (snd (snd (Deserialize 0 zero_input (sample_bytes 9 5)
      DeSeriModePerformValidation))) TypeMismatch \<and>
   Deserialize 0 zero_input (sample_bytes 9 5) DeSeriModeNoValidation =
     (sample_input 5, 35, None)"
proof -
  have a: "length (sample_bytes 9 5) = UTXOInputSize"
    by (simp add: sample_defs size_defs)
  have b: "sample_bytes 9 5 ! 0 \<noteq> 0"
    by (simp add: sample_defs)
  have c: "Deserialize 0 zero_input (sample_bytes 9 5) DeSeriModePerformValidation =
     (zero_input, 0, Some (Wrapped ''unable to deserialize UTXO input'' (Err TypeMismatch)))"
    using a b by (simp add: Deserialize_strict_tag size_defs)
  show ?thesis
    using a b c Deserialize_type_tag_mode [OF a b, of zero_input 0]
    by (simp add: sample_defs size_defs nth_append)
qed

text \<open>
  C9. Strict decoding is not atomic on the bounds error: on a buffer of at least 35 bytes with
  the right type tag and an index above 126, \<^verbatim>\<open>Deserialize\<close> with validation fails with
  \<open>SlotIndexOutOfRange\<close>; and whenever it fails with \<open>SlotIndexOutOfRange\<close>, the receiver
  holds the transaction ID and the out-of-range index that were read from the buffer,
  whatever it held before.
\<close>
theorem Deserialize_bounds_error_not_atomic:
  "(UTXOInputSize \<le> length data \<and> data ! 0 = tag \<and>
    RefUTXOIndexMax < unat (ucast (data ! 33) OR push_bit 8 (ucast (data ! 34)) :: uint16) \<longrightarrow>
      fails_with (snd (snd (Deserialize tag u data DeSeriModePerformValidation)))
        SlotIndexOutOfRange) \<and>
   (fails_with (snd (snd (Deserialize tag u data DeSeriModePerformValidation)))
      SlotIndexOutOfRange \<longrightarrow>
      fst (Deserialize tag u data DeSeriModePerformValidation) =
        \<lparr>TransactionID = take 32 (drop 1 data),
         TransactionOutputIndex = ucast (data ! 33) OR push_bit 8 (ucast (data ! 34))\<rparr> \<and>
      RefUTXOIndexMax <
        unat (TransactionOutputIndex (fst (Deserialize tag u data DeSeriModePerformValidation))))"
proof (cases "35 \<le> length data")
  case False
  then have "length data < 35" by simp
  then show ?thesis
    by (simp add: Deserialize_short_strict fails_with_def size_defs)
next
  case len: True
  have rec: "wire_fields data = \<lparr>TransactionID = take 32 (drop 1 data),
          TransactionOutputIndex = ucast (data ! 33) OR push_bit 8 (ucast (data ! 34))\<rparr>"
    using wire_fields_index [OF len] by (simp add: wire_fields_def)
  show ?thesis
  proof (cases "data ! 0 = tag")
    case False
    with len show ?thesis
      by (simp add: Deserialize_strict_tag fails_with_def)
  next
    case True
    show ?thesis
      using rec by (simp add: Deserialize_strict_long [OF len True] fails_with_def size_defs)
  qed
qed

theorem Deserialize_bounds_error_not_atomic_witness:
  "UTXOInputSize \<le> length (sample_bytes 0 127) \<and> sample_bytes 0 127 ! 0 = 0 \<and>
   fails_with (snd (snd (Deserialize 0 zero_input (sample_bytes 0 127)
      DeSeriModePerformValidation))) SlotIndexOutOfRange \<and>
   fst (Deserialize 0 zero_input (sample_bytes 0 127) DeSeriModePerformValidation) =
     sample_input 127 \<and>
   sample_input 127 \<noteq> zero_input"
proof -
  have a: "UTXOInputSize \<le> length (sample_bytes 0 127)"
    by (simp add: sample_defs size_defs)
  have b: "sample_bytes 0 127 ! 0 = 0"
    by (simp add: sample_defs)
  have c: "RefUTXOIndexMax < unat (ucast (sample_bytes 0 127 ! 33) OR
      push_bit 8 (ucast (sample_bytes 0 127 ! 34)) :: uint16)"
    by (simp add: sample_defs size_defs nth_append)
  show ?thesis
    using a b c Deserialize_bounds_error_not_atomic [of "sample_bytes 0 127" 0 zero_input]
    by (simp add: sample_defs size_defs nth_append)
qed

text \<open>
  C6. The identifier is total and deterministic: for every record, whatever its output index,
  \<^verbatim>\<open>ID\<close> returns a 34-byte value, does not panic and leaves the record as it was; for
  every record whose transaction ID has its 32 bytes the value is the transaction ID
  followed by the low and the high byte of the output index; records with equal fields
  have equal identifiers.
\<close>

theorem ID_total_deterministic:
  "(\<exists>id. snd (ID u) = Some id \<and> length id = 34) \<and>
   fst (ID u) = u \<and>
   (UTXOInput_wf u \<longrightarrow>
      snd (ID u) = Some (TransactionID u @
        [ucast (TransactionOutputIndex u), ucast (drop_bit 8 (TransactionOutputIndex u))])) \<and>
   (TransactionID u = TransactionID v \<and> TransactionOutputIndex u = TransactionOutputIndex v \<longrightarrow>
      snd (ID u) = snd (ID v))"
  by (simp add: ID_value UTXOInput_wf_def TransactionIDLength_def)

theorem ID_total_deterministic_witness:
  "UTXOInput_wf (sample_input 300) \<and>
   RefUTXOIndexMax < unat (TransactionOutputIndex (sample_input 300)) \<and>
   ID (sample_input 300) = (sample_input 300, Some (replicate 32 17 @ [44, 1])) \<and>
   snd (ID \<lparr>TransactionID = replicate 32 17, TransactionOutputIndex = 300\<rparr>) =
     snd (ID (sample_input 300))"
proof -
  have a: "UTXOInput_wf (sample_input 300)"
    by (simp add: UTXOInput_wf_def sample_input_def TransactionIDLength_def)
  have b: "RefUTXOIndexMax < unat (TransactionOutputIndex (sample_input 300))"
    by (simp add: sample_input_def RefUTXOIndexMax_def)
  show ?thesis
    using a b ID_total_deterministic
      [of "sample_input 300" "\<lparr>TransactionID = replicate 32 17, TransactionOutputIndex = 300\<rparr>"]
    by (simp add: sample_input_def prod_eq_iff)
qed

text \<open>
  C7. The hex form of an identifier: for every identifier, \<^verbatim>\<open>ToHex\<close> returns two
  characters per byte, 68 for the 34 bytes of an identifier, with no separator: the
  characters at positions 2k and 2k+1 are the digits, in \<^verbatim>\<open>0123456789abcdef\<close>, of the
  high and the low four bits of byte k, so that every character is a digit or a lowercase
  letter from a to f and decoding the string as hex gives the identifier back. For the
  record with the transaction ID \<^verbatim>\<open>0x11\<close> repeated 32 times and the output index 1, the
  hex form of its identifier is "11" repeated 32 times followed by "0100".
\<close>

theorem ToHex_form:
  "(length utxoInputID = TransactionIDLength + UInt16ByteSize \<longrightarrow>
      length (ToHex utxoInputID) = 68) \<and>
   length (ToHex utxoInputID) = 2 * length utxoInputID \<and>
   set (ToHex utxoInputID) \<subseteq> set ''0123456789abcdef'' \<and>
   hex_DecodeString (ToHex utxoInputID) = Some utxoInputID \<and>
   (\<forall>k < length utxoInputID.
      ToHex utxoInputID ! (2 * k) =
        ''0123456789abcdef'' ! unat (drop_bit 4 (utxoInputID ! k)) \<and>
      ToHex utxoInputID ! (2 * k + 1) =
        ''0123456789abcdef'' ! unat (utxoInputID ! k AND 15)) \<and>
   map_option ToHex (snd (ID (sample_input 1))) =
     Some ''11111111111111111111111111111111111111111111111111111111111111110100''"
proof -
  have len: "length (ToHex utxoInputID) = 2 * length utxoInputID"
    by (simp add: ToHex_def hex_EncodeToString_length)
  have chars: "set (ToHex utxoInputID) \<subseteq> set ''0123456789abcdef''"
    using hex_EncodeToString_chars [of utxoInputID] by (simp add: ToHex_def hextable_def)
  have dec: "hex_DecodeString (ToHex utxoInputID) = Some utxoInputID"
    by (simp add: ToHex_def hex_roundtrip)
  have digits: "\<forall>k < length utxoInputID.
      ToHex utxoInputID ! (2 * k) =
        ''0123456789abcdef'' ! unat (drop_bit 4 (utxoInputID ! k)) \<and>
      ToHex utxoInputID ! (2 * k + 1) =
        ''0123456789abcdef'' ! unat (utxoInputID ! k AND 15)"
    using hex_EncodeToString_nth [of _ utxoInputID]
    unfolding ToHex_def hextable_def by blast
  have sample: "map_option ToHex (snd (ID (sample_input 1))) =
     Some ''11111111111111111111111111111111111111111111111111111111111111110100''"
    by code_simp
  from len have "length utxoInputID = TransactionIDLength + UInt16ByteSize \<longrightarrow>
      length (ToHex utxoInputID) = 68"
    by (simp add: size_defs)
  with len chars dec digits sample show ?thesis
    by (intro conjI)
qed

theorem ToHex_form_witness:
  "length (replicate 32 17 @ [1, 0 :: byte]) = TransactionIDLength + UInt16ByteSize \<and>
   snd (ID (sample_input 1)) = Some (replicate 32 17 @ [1, 0]) \<and>
   ToHex (replicate 32 17 @ [1, 0]) =
     ''11111111111111111111111111111111111111111111111111111111111111110100'' \<and>
   length (ToHex (replicate 32 17 @ [1, 0])) = 68 \<and>
   hex_DecodeString
     ''11111111111111111111111111111111111111111111111111111111111111110100'' =
     Some (replicate 32 17 @ [1, 0]) \<and>
   ToHex (replicate 32 17 @ [1, 0]) ! 64 = CHR ''0'' \<and>
   ToHex (replicate 32 17 @ [1, 0]) ! 65 = CHR ''1''"
proof -
  let ?i = "replicate 32 17 @ [1, 0 :: byte]"
  note form = ToHex_form [of ?i]
  have a: "length ?i = TransactionIDLength + UInt16ByteSize"
    by (simp add: size_defs)
  have b: "snd (ID (sample_input 1)) = Some ?i"
    by (simp add: ID_value sample_input_def)
  have v: "ToHex ?i =
     ''11111111111111111111111111111111111111111111111111111111111111110100''"
    by code_simp
  have l: "length (ToHex ?i) = 68"
    using a form [THEN conjunct1] by blast
  have d: "hex_DecodeString (ToHex ?i) = Some ?i"
    using form by blast
  have k: "(32 :: nat) < length ?i"
    by simp
  have n: "ToHex ?i ! (2 * 32) = ''0123456789abcdef'' ! unat (drop_bit 4 (?i ! 32)) \<and>
      ToHex ?i ! (2 * 32 + 1) = ''0123456789abcdef'' ! unat (?i ! 32 AND 15)"
    using k form by blast
  have i32: "?i ! 32 = 1"
    by (simp add: nth_append)
  have hi: "drop_bit 4 (1 :: byte) = 0"
    by (simp add: drop_bit_eq_div)
  have n64: "ToHex ?i ! 64 = CHR ''0''" and n65: "ToHex ?i ! 65 = CHR ''1''"
    using n unfolding i32 hi by simp_all
  from d have d': "hex_DecodeString
     ''11111111111111111111111111111111111111111111111111111111111111110100'' = Some ?i"
    unfolding v .
  from a b v l d' n64 n65 show ?thesis
    by (intro conjI)
qed

text \<open>
  C5. The JSON adapter validates on one side only. \<^verbatim>\<open>MarshalJSON\<close> succeeds on every
  record and checks nothing: it emits the type tag as a number, the transaction ID as hex
  (64 lowercase hex characters for a 32-byte ID) and the output index as a number, whatever
  the index is. \<^verbatim>\<open>UnmarshalJSON\<close>, which takes no validation mode, never accepts an index
  outside [0,126]: every success leaves an index of at most 126 in the receiver, and a
  well-formed object with a 32-byte ID and an index outside [0,126] fails with
  \<open>SlotIndexOutOfRange\<close>.
\<close>

theorem JSON_validation_asymmetry:
  "MarshalJSON tag u =
     (utxo_input_doc (uint tag) (hex_EncodeToString (TransactionID u))
        (uint (TransactionOutputIndex u)), None) \<and>
   (UTXOInput_wf u \<longrightarrow> length (hex_EncodeToString (TransactionID u)) = 64) \<and>
   set (hex_EncodeToString (TransactionID u)) \<subseteq> set ''0123456789abcdef'' \<and>
   (snd (UnmarshalJSON r doc) = None \<longrightarrow>
      unat (TransactionOutputIndex (fst (UnmarshalJSON r doc))) \<le> RefUTXOIndexMax) \<and>
   (length bs = TransactionIDLength \<and> is_go_int t \<and> is_go_int n \<and>
    (n < int RefUTXOIndexMin \<or> int RefUTXOIndexMax < n) \<longrightarrow>
      UnmarshalJSON r (utxo_input_doc t (hex_EncodeToString bs) n) =
        (r, Some (Err SlotIndexOutOfRange)))"
proof -
  have chars: "set (hex_EncodeToString (TransactionID u)) \<subseteq> set ''0123456789abcdef''"
    using hex_EncodeToString_chars [of "TransactionID u"] by (simp add: hextable_def)
  have len: "UTXOInput_wf u \<longrightarrow> length (hex_EncodeToString (TransactionID u)) = 64"
    by (simp add: hex_EncodeToString_length UTXOInput_wf_def TransactionIDLength_def)
  have ok: "snd (UnmarshalJSON r doc) = None \<longrightarrow>
      unat (TransactionOutputIndex (fst (UnmarshalJSON r doc))) \<le> RefUTXOIndexMax"
    using UnmarshalJSON_success [of r doc] by (simp add: RefUTXOIndexMax_def)
  have bad: "UnmarshalJSON r (utxo_input_doc t (hex_EncodeToString bs) n) =
        (r, Some (Err SlotIndexOutOfRange))"
    if "length bs = TransactionIDLength" "is_go_int t" "is_go_int n"
      "n < int RefUTXOIndexMin \<or> int RefUTXOIndexMax < n"
    using that by (auto simp: UnmarshalJSON_object ToSerializable_def hex_roundtrip)
  show ?thesis
    using chars len ok bad by (simp add: MarshalJSON_value)
qed

theorem JSON_validation_asymmetry_witness:
  "UTXOInput_wf (sample_input 300) \<and>
   MarshalJSON 0 (sample_input 300) =
     (utxo_input_doc 0 ''1111111111111111111111111111111111111111111111111111111111111111'' 300,
      None) \<and>
   length (replicate 32 (17 :: byte)) = TransactionIDLength \<and>
   is_go_int 0 \<and> is_go_int 300 \<and> int RefUTXOIndexMax < 300 \<and>
   UnmarshalJSON zero_input
     (utxo_input_doc 0 ''1111111111111111111111111111111111111111111111111111111111111111'' 300) =
     (zero_input, Some (Err SlotIndexOutOfRange)) \<and>
   snd (UnmarshalJSON zero_input
     (utxo_input_doc 0 ''1111111111111111111111111111111111111111111111111111111111111111'' 126)) = None \<and>
   unat (TransactionOutputIndex (fst (UnmarshalJSON zero_input
     (utxo_input_doc 0 ''1111111111111111111111111111111111111111111111111111111111111111'' 126)))) \<le> RefUTXOIndexMax"
proof -
  have a: "UTXOInput_wf (sample_input 300)"
    by (simp add: UTXOInput_wf_def sample_input_def TransactionIDLength_def)
  have h: "hex_EncodeToString (replicate 32 17) =
      ''1111111111111111111111111111111111111111111111111111111111111111''"
    by code_simp
  have b: "length (replicate 32 (17 :: byte)) = TransactionIDLength"
    by (simp add: TransactionIDLength_def)
  have c: "is_go_int 0" "is_go_int 300" "is_go_int 126" "int RefUTXOIndexMax < 300"
    by (simp_all add: is_go_int_def RefUTXOIndexMax_def)
  have d: "snd (UnmarshalJSON zero_input
     (utxo_input_doc 0 ''1111111111111111111111111111111111111111111111111111111111111111'' 126)) = None"
    using c hex_roundtrip [of "replicate 32 17"]
    by (simp add: UnmarshalJSON_object ToSerializable_def h size_defs)
  show ?thesis
    using a c d
      JSON_validation_asymmetry [of 0 "sample_input 300" zero_input
        "utxo_input_doc 0 ''1111111111111111111111111111111111111111111111111111111111111111'' 126"
        "replicate 32 17" 0 300]
    by (simp add: h sample_input_def size_defs)
qed

text \<open>
  C8. JSON round trip and the length of the hex string: for every record whose transaction
  ID has its 32 bytes and whose output index is in [0,126], \<^verbatim>\<open>UnmarshalJSON\<close> of the
  result of \<^verbatim>\<open>MarshalJSON\<close> succeeds and leaves the receiver equal to the record; a JSON
  object whose transaction-ID string has 63 characters fails with \<open>InvalidHexEncoding\<close>.
\<close>

theorem JSON_roundtrip:
  "(UTXOInput_wf u \<and> RefUTXOIndexMin \<le> unat (TransactionOutputIndex u) \<and>
    unat (TransactionOutputIndex u) \<le> RefUTXOIndexMax \<longrightarrow>
      snd (MarshalJSON tag u) = None \<and>
      UnmarshalJSON r (fst (MarshalJSON tag u)) = (u, None)) \<and>
   (length s = 63 \<and> is_go_int t \<and> is_go_int n \<longrightarrow>
      UnmarshalJSON r (utxo_input_doc t s n) = (r, Some (Err InvalidHexEncoding)))"
proof -
  have rt: "UnmarshalJSON r (fst (MarshalJSON tag u)) = (u, None)"
    if wf: "UTXOInput_wf u" and hi: "unat (TransactionOutputIndex u) \<le> RefUTXOIndexMax"
  proof -
    have le: "uint (TransactionOutputIndex u) \<le> 126"
      using hi unfolding RefUTXOIndexMax_def uint_nat by linarith
    have ts: "ToSerializable \<lparr>json_Type = uint tag,
        json_TransactionID = hex_EncodeToString (TransactionID u),
        json_TransactionOutputIndex = uint (TransactionOutputIndex u)\<rparr> = Inr u"
      using wf le by (simp add: ToSerializable_def hex_roundtrip UTXOInput_wf_def size_defs)
    show ?thesis
      by (simp add: MarshalJSON_value UnmarshalJSON_object is_go_int_byte is_go_int_uint16 ts)
  qed
  have odd: "UnmarshalJSON r (utxo_input_doc t s n) = (r, Some (Err InvalidHexEncoding))"
    if len: "length s = 63" and t: "is_go_int t" and n: "is_go_int n"
  proof -
    have "hex_DecodeString s = None"
    proof (cases "hex_DecodeString s")
      case None
      then show ?thesis .
    next
      case (Some bs)
      then have "length s = 2 * length bs" by (rule hex_DecodeString_length)
      with len show ?thesis by presburger
    qed
    then show ?thesis
      using t n by (simp add: UnmarshalJSON_object ToSerializable_def)
  qed
  show ?thesis
    using rt odd by (simp add: MarshalJSON_value)
qed

theorem JSON_roundtrip_witness:
  "UTXOInput_wf (sample_input 126) \<and>
   RefUTXOIndexMin \<le> unat (TransactionOutputIndex (sample_input 126)) \<and>
   unat (TransactionOutputIndex (sample_input 126)) \<le> RefUTXOIndexMax \<and>
   snd (MarshalJSON 0 (sample_input 126)) = None \<and>
   UnmarshalJSON zero_input (fst (MarshalJSON 0 (sample_input 126))) = (sample_input 126, None) \<and>
   length ''111111111111111111111111111111111111111111111111111111111111111'' = 63 \<and>
   is_go_int 0 \<and> is_go_int 1 \<and>
   UnmarshalJSON zero_input
     (utxo_input_doc 0 ''111111111111111111111111111111111111111111111111111111111111111'' 1) =
     (zero_input, Some (Err InvalidHexEncoding))"
proof -
  have a: "UTXOInput_wf (sample_input 126)"
    by (simp add: UTXOInput_wf_def sample_input_def TransactionIDLength_def)
  have b: "RefUTXOIndexMin \<le> unat (TransactionOutputIndex (sample_input 126))"
    "unat (TransactionOutputIndex (sample_input 126)) \<le> RefUTXOIndexMax"
    by (simp_all add: sample_input_def size_defs)
  have c: "length ''111111111111111111111111111111111111111111111111111111111111111'' = 63"
    by simp
  have d: "is_go_int 0" "is_go_int 1"
    by (simp_all add: is_go_int_def)
  show ?thesis
    using a b c d
      JSON_roundtrip [of "sample_input 126" 0 zero_input
        "''111111111111111111111111111111111111111111111111111111111111111''" 0 1]
    by simp
qed

text \<open>
  C10. \<^verbatim>\<open>UnmarshalJSON\<close> is atomic, whatever the decoder and the conversion do: if it
  returns an error the receiver is unchanged, and it returns no error exactly when the
  decoder and the conversion both succeed, in which case the receiver is the converted
  record. With the decoder and the conversion of this repository, a document that is not
  an object, a mistyped member, an absent transaction ID, invalid hex and an index of 127
  each leave the receiver unchanged.
\<close>

theorem UnmarshalJSON_atomic:
  "(snd (UnmarshalJSON_with unmarshal toSerializable u bytes) \<noteq> None \<longrightarrow>
      fst (UnmarshalJSON_with unmarshal toSerializable u bytes) = u) \<and>
   (snd (UnmarshalJSON_with unmarshal toSerializable u bytes) = None \<longrightarrow>
      snd (unmarshal bytes jsonutxoinput_zero) = None \<and>
      toSerializable (fst (unmarshal bytes jsonutxoinput_zero)) =
        Inr (fst (UnmarshalJSON_with unmarshal toSerializable u bytes))) \<and>
   (snd (unmarshal bytes jsonutxoinput_zero) = None \<and>
    toSerializable (fst (unmarshal bytes jsonutxoinput_zero)) = Inr seri \<longrightarrow>
      UnmarshalJSON_with unmarshal toSerializable u bytes = (seri, None))"
proof -
  obtain jsonUTXO err where um: "unmarshal bytes jsonutxoinput_zero = (jsonUTXO, err)"
    by (cases "unmarshal bytes jsonutxoinput_zero")
  show ?thesis
  proof (cases err)
    case (Some e)
    then show ?thesis
      by (simp add: UnmarshalJSON_with_def um)
  next
    case None
    show ?thesis
    proof (cases "toSerializable jsonUTXO")
      case (Inl e)
      then show ?thesis
        by (simp add: UnmarshalJSON_with_def um None)
    next
      case (Inr v)
      then show ?thesis
        by (simp add: UnmarshalJSON_with_def um None)
    qed
  qed
qed

theorem UnmarshalJSON_atomic_witness:
  "UnmarshalJSON (sample_input 7) (JBool True) = (sample_input 7, Some (Err MalformedJSON)) \<and>
   UnmarshalJSON (sample_input 7) (JObject [(''type'', JString ''0'')]) =
     (sample_input 7, Some (Err MalformedJSON)) \<and>
   UnmarshalJSON (sample_input 7) (JObject [(''type'', JNumber 0)]) =
     (sample_input 7, Some (Err InvalidHexEncoding)) \<and>
   UnmarshalJSON (sample_input 7) (utxo_input_doc 0 ''zz'' 1) =
     (sample_input 7, Some (Err InvalidHexEncoding)) \<and>
   UnmarshalJSON (sample_input 7)
     (utxo_input_doc 0 ''abababababababababababababababababababababababababababababababab'' 127) =
     (sample_input 7, Some (Err SlotIndexOutOfRange)) \<and>
   UnmarshalJSON (sample_input 7)
     (utxo_input_doc 0 ''abababababababababababababababababababababababababababababababab'' 5) =
     (\<lparr>TransactionID = replicate 32 171, TransactionOutputIndex = 5\<rparr>, None)"
proof -
  have atom: "UnmarshalJSON (sample_input 7) d = (sample_input 7, Some e)"
    if fails: "snd (UnmarshalJSON (sample_input 7) d) = Some e" for d e
  proof -
    have "fst (UnmarshalJSON (sample_input 7) d) = sample_input 7"
      using fails
        UnmarshalJSON_atomic [of json_Unmarshal ToSerializable "sample_input 7" d,
          THEN conjunct1]
      by (simp add: UnmarshalJSON_def)
    with fails show ?thesis
      by (simp add: prod_eq_iff)
  qed
  have h: "hex_DecodeString ''abababababababababababababababababababababababababababababababab'' =
      Some (replicate 32 171)"
    by code_simp
  have g: "is_go_int 0" "is_go_int 1" "is_go_int 5" "is_go_int 127"
    by (simp_all add: is_go_int_def)
  have e0: "snd (UnmarshalJSON (sample_input 7) (JBool True)) = Some (Err MalformedJSON)"
    by (simp add: json_defs)
  have e1: "snd (UnmarshalJSON (sample_input 7) (JObject [(''type'', JString ''0'')])) =
      Some (Err MalformedJSON)"
    by (simp add: json_defs)
  have e2: "snd (UnmarshalJSON (sample_input 7) (JObject [(''type'', JNumber 0)])) =
      Some (Err InvalidHexEncoding)"
    by (simp add: json_defs g ToSerializable_def size_defs)
  have e3: "snd (UnmarshalJSON (sample_input 7) (utxo_input_doc 0 ''zz'' 1)) =
      Some (Err InvalidHexEncoding)"
    by (simp add: UnmarshalJSON_object g ToSerializable_def fromHexChar_def)
  have e4: "snd (UnmarshalJSON (sample_input 7)
     (utxo_input_doc 0 ''abababababababababababababababababababababababababababababababab'' 127)) =
      Some (Err SlotIndexOutOfRange)"
    by (simp add: UnmarshalJSON_object g)
      (simp add: ToSerializable_def h size_defs del: hex_DecodeString.simps)
  have u5: "json_Unmarshal
      (utxo_input_doc 0 ''abababababababababababababababababababababababababababababababab'' 5)
      jsonutxoinput_zero =
      (\<lparr>json_Type = 0,
        json_TransactionID = ''abababababababababababababababababababababababababababababababab'',
        json_TransactionOutputIndex = 5\<rparr>, None)"
    by (simp add: json_defs g)
  have t5: "ToSerializable \<lparr>json_Type = 0,
        json_TransactionID = ''abababababababababababababababababababababababababababababababab'',
        json_TransactionOutputIndex = 5\<rparr> =
      Inr \<lparr>TransactionID = replicate 32 171, TransactionOutputIndex = 5\<rparr>"
    by (simp add: ToSerializable_def h size_defs del: hex_DecodeString.simps)
  have s5: "UnmarshalJSON (sample_input 7)
     (utxo_input_doc 0 ''abababababababababababababababababababababababababababababababab'' 5) =
     (\<lparr>TransactionID = replicate 32 171, TransactionOutputIndex = 5\<rparr>, None)"
    using UnmarshalJSON_atomic [of json_Unmarshal ToSerializable "sample_input 7"
        "utxo_input_doc 0 ''abababababababababababababababababababababababababababababababab'' 5"
        "\<lparr>TransactionID = replicate 32 171, TransactionOutputIndex = 5\<rparr>",
        THEN conjunct2, THEN conjunct2]
    by (simp add: UnmarshalJSON_def u5 t5)
  from atom [OF e0] atom [OF e1] atom [OF e2] atom [OF e3] atom [OF e4] s5
  show ?thesis by (intro conjI)
qed

end
